theory Spec2Isabelle
  imports Main
begin

section \<open>The countdown application of countime.py\<close>

text \<open>
  The source is one Python file, \<^verbatim>\<open>countime.py\<close>: a Tk application object \<^verbatim>\<open>App\<close> whose
  methods mutate the attributes \<^verbatim>\<open>current_phase\<close>, \<^verbatim>\<open>remaining_seconds\<close>, \<^verbatim>\<open>state\<close> and
  \<^verbatim>\<open>config_data\<close>. Every method runs to completion on the Tk event loop, so a method is a
  function from the application object to the application object. A leading underscore of
  a Python name is dropped (\<^verbatim>\<open>_tick\<close> is \<open>tick\<close>).
\<close>

subsection \<open>Data\<close>

text \<open>\<^verbatim>\<open>class Phase\<close>: two constants, compared with \<^verbatim>\<open>==\<close> only.\<close>

datatype phase = USE | REST

text \<open>
  \<^verbatim>\<open>class CountdownState\<close>: four string constants. The attribute \<^verbatim>\<open>state\<close> holds a string,
  so that it is one of the four is a property of the runs and not of the type.
\<close>

definition IDLE :: string where
  "IDLE = ''idle''"

definition RUNNING :: string where
  "RUNNING = ''running''"

definition PAUSED :: string where
  "PAUSED = ''paused''"

definition LOCKED_PAUSED :: string where
  "LOCKED_PAUSED = ''locked_paused''"

text \<open>
  The configuration dict. A key is a field, \<open>None\<close> when the dict has no such key; the values
  have the types that \<^verbatim>\<open>read_config\<close>'s defaults and \<^verbatim>\<open>save_settings\<close> write, on which the
  conversions \<^verbatim>\<open>int(...)\<close> and \<^verbatim>\<open>bool(...)\<close> of the source are the identity.
\<close>

record config =
  use_seconds :: "int option"
  rest_seconds :: "int option"
  popup_width :: "int option"
  popup_height :: "int option"
  video_path :: "string option"
  auto_start_countdown :: "bool option"
  windows_autostart :: "bool option"
  enable_tray :: "bool option"
  enable_toast :: "bool option"
  fullscreen_rest :: "bool option"
  enable_lock_screen :: "bool option"

text \<open>\<^verbatim>\<open>d.get(key, default)\<close>\<close>

definition dict_get :: "'a option \<Rightarrow> 'a \<Rightarrow> 'a" where
  "dict_get v d = (case v of None \<Rightarrow> d | Some x \<Rightarrow> x)"

text \<open>
  What the application does to its collaborators: a toast naming the next phase, the popup
  for the phase that ended (with its fullscreen flag), a call of \<^verbatim>\<open>_lock_computer\<close>.
\<close>

datatype action = Toast phase | Popup phase bool | LockComputer

text \<open>
  The application object. Besides the attributes of the source it holds the part of the Tk
  event loop that the methods act on: the clock \<open>now\<close> (milliseconds), the due times of the
  callbacks registered by \<^verbatim>\<open>self.after(1000, self._tick)\<close> in registration order, the
  number of open popups, and the actions so far. \<open>toaster\<close> is \<^verbatim>\<open>self._toaster is not None\<close>.
  The widgets (button states and texts, labels) are not modelled.
\<close>

record app =
  config_data :: config
  current_phase :: phase
  remaining_seconds :: int
  state :: string
  toaster :: bool
  now :: nat
  timers :: "nat list"
  popups :: nat
  actions :: "action list"

subsection \<open>The countdown methods\<close>

text \<open>\<^verbatim>\<open>self.after(1000, self._tick)\<close>\<close>

definition after_1000_tick :: "app \<Rightarrow> app" where
  "after_1000_tick a = a\<lparr>timers := timers a @ [now a + 1000]\<rparr>"

text \<open>\<^verbatim>\<open>_notify_phase_complete\<close>; a failure of \<^verbatim>\<open>show_toast\<close> is swallowed by the source.\<close>

definition notify_phase_complete :: "app \<Rightarrow> app" where
  "notify_phase_complete a =
     (if dict_get (enable_toast (config_data a)) True \<and> toaster a
      then a\<lparr>actions := actions a @ [Toast (if current_phase a = USE then REST else USE)]\<rparr>
      else a)"

text \<open>
  \<^verbatim>\<open>_show_media_popup_and_continue\<close>: the flags it computes and the popup it opens; the
  geometry and the video of the popup are not modelled.
\<close>

definition show_media_popup_and_continue :: "app \<Rightarrow> app" where
  "show_media_popup_and_continue a =
     (let next_phase = (if current_phase a = USE then REST else USE);
          enable_lock_for_rest =
            (dict_get (enable_lock_screen (config_data a)) False \<and> current_phase a = USE);
          fullscreen =
            (dict_get (fullscreen_rest (config_data a)) False \<and> next_phase = REST
             \<and> \<not> enable_lock_for_rest)
      in a\<lparr>popups := popups a + 1,
           actions := actions a @ [Popup (current_phase a) fullscreen]\<rparr>)"

text \<open>\<^verbatim>\<open>_tick\<close>\<close>

definition tick :: "app \<Rightarrow> app" where
  "tick a =
     (if state a \<noteq> RUNNING then a
      else if remaining_seconds a \<le> 0
      then show_media_popup_and_continue (notify_phase_complete (a\<lparr>state := IDLE\<rparr>))
      else after_1000_tick (a\<lparr>remaining_seconds := remaining_seconds a - 1\<rparr>))"

text \<open>\<^verbatim>\<open>start_countdown\<close>\<close>

definition start_countdown :: "app \<Rightarrow> app" where
  "start_countdown a =
     (if state a = RUNNING then a
      else
        let a1 =
          (if current_phase a = USE
           then a\<lparr>remaining_seconds :=
                  (if remaining_seconds a \<le> 0
                   then dict_get (use_seconds (config_data a)) 1500
                   else remaining_seconds a)\<rparr>
           else a\<lparr>remaining_seconds :=
                  (if remaining_seconds a \<le> 0
                   then dict_get (rest_seconds (config_data a)) 300
                   else remaining_seconds a)\<rparr>)
        in tick (a1\<lparr>state := RUNNING\<rparr>))"

text \<open>\<^verbatim>\<open>toggle_pause\<close>\<close>

definition toggle_pause :: "app \<Rightarrow> app" where
  "toggle_pause a =
     (if state a = RUNNING then a\<lparr>state := PAUSED\<rparr>
      else if state a = PAUSED then tick (a\<lparr>state := RUNNING\<rparr>)
      else a)"

text \<open>\<^verbatim>\<open>reset_countdown\<close>\<close>

definition reset_countdown :: "app \<Rightarrow> app" where
  "reset_countdown a =
     a\<lparr>state := IDLE, current_phase := USE,
       remaining_seconds := dict_get (use_seconds (config_data a)) 1500\<rparr>"

text \<open>\<^verbatim>\<open>_on_screen_lock\<close>\<close>

definition on_screen_lock :: "app \<Rightarrow> app" where
  "on_screen_lock a =
     (if current_phase a = REST \<and> state a = RUNNING then a\<lparr>state := LOCKED_PAUSED\<rparr>
      else a)"

text \<open>\<^verbatim>\<open>_on_screen_unlock\<close>: both branches assign the state and then call \<^verbatim>\<open>start_countdown\<close>.\<close>

definition on_screen_unlock :: "app \<Rightarrow> app" where
  "on_screen_unlock a =
     (if current_phase a = USE \<and> state a = LOCKED_PAUSED
      then start_countdown (a\<lparr>state := RUNNING\<rparr>)
      else if current_phase a = REST \<and> state a = LOCKED_PAUSED
      then start_countdown (a\<lparr>state := RUNNING\<rparr>)
      else a)"

text \<open>\<^verbatim>\<open>_lock_computer\<close>: the call is recorded; what the platform does with it is not modelled.\<close>

definition lock_computer :: "app \<Rightarrow> app" where
  "lock_computer a = a\<lparr>actions := actions a @ [LockComputer]\<rparr>"

text \<open>\<^verbatim>\<open>_close_popup_and_start_next\<close>, the command of the popup's button.\<close>

definition close_popup_and_start_next :: "app \<Rightarrow> app" where
  "close_popup_and_start_next a =
     (let next_phase = (if current_phase a = USE then REST else USE);
          enable_lock_for_rest =
            (dict_get (enable_lock_screen (config_data a)) False \<and> current_phase a = USE);
          a1 = a\<lparr>popups := popups a - 1\<rparr>;
          a2 = a1\<lparr>current_phase := next_phase\<rparr>;
          a3 = (if current_phase a2 = REST
                then a2\<lparr>remaining_seconds := dict_get (rest_seconds (config_data a2)) 300\<rparr>
                else a2\<lparr>remaining_seconds := dict_get (use_seconds (config_data a2)) 1500\<rparr>)
      in if enable_lock_for_rest
         then tick ((lock_computer a3)\<lparr>state := RUNNING\<rparr>)
         else start_countdown a3)"

subsection \<open>The event loop\<close>

text \<open>
  The event loop runs the callback that is due first: the clock moves to its due time
  (unless it is already later) and \<^verbatim>\<open>_tick\<close> runs. The source never calls
  \<^verbatim>\<open>after_cancel\<close>, so a registered callback leaves the list only by running.
\<close>

definition deliver :: "app \<Rightarrow> app" where
  "deliver a =
     (case timers a of
        [] \<Rightarrow> a
      | due # rest \<Rightarrow> tick (a\<lparr>now := max (now a) due, timers := rest\<rparr>))"

text \<open>
  The events that reach the application: the three commands (buttons and tray menu), a due
  tick callback, the session lock and unlock notifications, and the button of an open popup.
\<close>

datatype event = Start | PauseResume | Reset | Tick | Lock | Unlock | Ack

fun step :: "event \<Rightarrow> app \<Rightarrow> app" where
  "step Start a = start_countdown a"
| "step PauseResume a = toggle_pause a"
| "step Reset a = reset_countdown a"
| "step Tick a = deliver a"
| "step Lock a = on_screen_lock a"
| "step Unlock a = on_screen_unlock a"
| "step Ack a = (if popups a = 0 then a else close_popup_and_start_next a)"

fun run :: "event list \<Rightarrow> app \<Rightarrow> app" where
  "run [] a = a"
| "run (e # es) a = run es (step e a)"

text \<open>
  \<^verbatim>\<open>App.__init__\<close>: the attributes after construction, for a configuration already read;
  the countdown starts at once when \<^verbatim>\<open>auto_start_countdown\<close> is set.
\<close>

definition idle_app :: "config \<Rightarrow> bool \<Rightarrow> app" where
  "idle_app cfg tst =
     \<lparr>config_data = cfg, current_phase = USE,
      remaining_seconds = dict_get (use_seconds cfg) 1500,
      state = IDLE, toaster = tst, now = 0, timers = [], popups = 0, actions = []\<rparr>"

definition init_app :: "config \<Rightarrow> bool \<Rightarrow> app" where
  "init_app cfg tst =
     (if dict_get (auto_start_countdown cfg) True
      then start_countdown (idle_app cfg tst)
      else idle_app cfg tst)"

text \<open>The phases whose end was announced by a popup, in order.\<close>

fun phase_completes :: "action list \<Rightarrow> phase list" where
  "phase_completes [] = []"
| "phase_completes (Popup p f # xs) = p # phase_completes xs"
| "phase_completes (x # xs) = phase_completes xs"

subsection \<open>Reading and saving the configuration\<close>

text \<open>
  The file \<^verbatim>\<open>config.json\<close> as \<^verbatim>\<open>read_config\<close> finds it: absent, present but \<^verbatim>\<open>open\<close>
  raises, opened but \<^verbatim>\<open>json.load\<close> raises, or holding a JSON object. A file that parses
  to another JSON value, or to an object with values of other types, is not modelled.
\<close>

datatype config_file = Absent | OpenFails | LoadFails | Loaded config

datatype exn = OSError | JSONDecodeError

definition default_config :: config where
  "default_config =
     \<lparr>use_seconds = Some 1500, rest_seconds = Some 300, popup_width = Some 600,
      popup_height = Some 400, video_path = Some [], auto_start_countdown = Some True,
      windows_autostart = Some False, enable_tray = Some True, enable_toast = Some True,
      fullscreen_rest = Some False, enable_lock_screen = Some False\<rparr>"

text \<open>The body of the \<^verbatim>\<open>try\<close> block of \<^verbatim>\<open>read_config\<close>; \<open>Inl\<close> is a raised exception.\<close>

definition load_config :: "config_file \<Rightarrow> exn + config" where
  "load_config f =
     (case f of
        Absent \<Rightarrow> Inl OSError
      | OpenFails \<Rightarrow> Inl OSError
      | LoadFails \<Rightarrow> Inl JSONDecodeError
      | Loaded cfg \<Rightarrow>
          Inr (if enable_lock_screen cfg = None
               then cfg\<lparr>enable_lock_screen := Some False\<rparr> else cfg))"

text \<open>\<^verbatim>\<open>read_config\<close>: the test \<^verbatim>\<open>os.path.exists\<close>, then the \<^verbatim>\<open>try\<close> with its \<^verbatim>\<open>except Exception\<close>.\<close>

definition read_config :: "config_file \<Rightarrow> config" where
  "read_config f =
     (case f of
        Absent \<Rightarrow> default_config
      | _ \<Rightarrow> (case load_config f of Inl e \<Rightarrow> default_config | Inr cfg \<Rightarrow> cfg))"

text \<open>\<^verbatim>\<open>write_config\<close>; the flag says whether the file can be opened for writing.\<close>

definition write_config :: "bool \<Rightarrow> config \<Rightarrow> config_file \<Rightarrow> exn + config_file" where
  "write_config writable cfg f = (if writable then Inr (Loaded cfg) else Inl OSError)"

text \<open>The Tk variables that \<^verbatim>\<open>save_settings\<close> reads.\<close>

record ui =
  use_seconds_var :: int
  rest_seconds_var :: int
  popup_w_var :: int
  popup_h_var :: int
  video_path_var :: string
  auto_start_var :: bool
  win_autostart_var :: bool
  tray_var :: bool
  lock_screen_var :: bool

text \<open>
  \<^verbatim>\<open>save_settings\<close>: the dict literal of the source has nine keys, the two lines for
  \<^verbatim>\<open>enable_toast\<close> and \<^verbatim>\<open>fullscreen_rest\<close> being commented out. An exception of
  \<^verbatim>\<open>write_config\<close> leaves the method before \<^verbatim>\<open>config_data\<close> is assigned. The message boxes,
  the registry entry and the tray are not modelled.
\<close>

definition save_settings ::
  "bool \<Rightarrow> ui \<Rightarrow> config_file \<Rightarrow> app \<Rightarrow> exn + (config_file \<times> app)" where
  "save_settings writable u f a =
     (let cfg =
        \<lparr>use_seconds = Some (use_seconds_var u), rest_seconds = Some (rest_seconds_var u),
         popup_width = Some (popup_w_var u), popup_height = Some (popup_h_var u),
         video_path = Some (video_path_var u),
         auto_start_countdown = Some (auto_start_var u),
         windows_autostart = Some (win_autostart_var u), enable_tray = Some (tray_var u),
         enable_toast = None, fullscreen_rest = None,
         enable_lock_screen = Some (lock_screen_var u)\<rparr>
      in case write_config writable cfg f of
           Inl e \<Rightarrow> Inl e
         | Inr f' \<Rightarrow> Inr (f', reset_countdown (a\<lparr>config_data := cfg\<rparr>)))"

subsection \<open>Concrete sessions\<close>

text \<open>The default configuration with other durations and no start at launch.\<close>

definition cfg_secs :: "int \<Rightarrow> int \<Rightarrow> config" where
  "cfg_secs u r =
     default_config\<lparr>use_seconds := Some u, rest_seconds := Some r,
                    auto_start_countdown := Some False\<rparr>"

text \<open>A USE countdown that runs: started from idle, ten seconds configured.\<close>

definition use_session :: app where
  "use_session = run [Start] (idle_app (cfg_secs 10 300) False)"

text \<open>
  A REST countdown that runs: one second of use has passed, its popup is acknowledged
  and the screen-lock toggle is off.
\<close>

definition rest_session :: app where
  "rest_session = run [Start, Tick, Ack] (idle_app (cfg_secs 1 300) False)"

text \<open>A configuration with both dropped toggles set away from their defaults.\<close>

definition cfg_toggles :: config where
  "cfg_toggles = (cfg_secs 10 300)\<lparr>enable_toast := Some False, fullscreen_rest := Some True\<rparr>"

text \<open>Values of the Tk variables of the settings form.\<close>

definition ui_values :: ui where
  "ui_values =
     \<lparr>use_seconds_var = 1200, rest_seconds_var = 120, popup_w_var = 800, popup_h_var = 600,
      video_path_var = ''rest.mp4'', auto_start_var = True, win_autostart_var = False,
      tray_var = True, lock_screen_var = True\<rparr>"

section \<open>Basic facts\<close>

lemma state_distinct [simp]:
  "IDLE \<noteq> RUNNING" "RUNNING \<noteq> IDLE" "IDLE \<noteq> PAUSED" "PAUSED \<noteq> IDLE"
  "IDLE \<noteq> LOCKED_PAUSED" "LOCKED_PAUSED \<noteq> IDLE" "RUNNING \<noteq> PAUSED" "PAUSED \<noteq> RUNNING"
  "RUNNING \<noteq> LOCKED_PAUSED" "LOCKED_PAUSED \<noteq> RUNNING" "PAUSED \<noteq> LOCKED_PAUSED"
  "LOCKED_PAUSED \<noteq> PAUSED"
  by (simp_all add: IDLE_def RUNNING_def PAUSED_def LOCKED_PAUSED_def)

lemmas method_defs =
  tick_def start_countdown_def toggle_pause_def reset_countdown_def on_screen_lock_def
  on_screen_unlock_def close_popup_and_start_next_def deliver_def after_1000_tick_def
  notify_phase_complete_def show_media_popup_and_continue_def lock_computer_def

lemmas session_defs = idle_app_def init_app_def cfg_secs_def default_config_def dict_get_def

lemma tick_not_running: "state a \<noteq> RUNNING \<Longrightarrow> tick a = a"
  by (simp add: tick_def)

lemma tick_config [simp]: "config_data (tick a) = config_data a"
  by (simp add: method_defs Let_def)

lemma tick_phase [simp]: "current_phase (tick a) = current_phase a"
  by (simp add: method_defs Let_def)

lemma tick_toaster [simp]: "toaster (tick a) = toaster a"
  by (simp add: method_defs Let_def)

lemma tick_remaining_nonneg: "0 \<le> remaining_seconds a \<Longrightarrow> 0 \<le> remaining_seconds (tick a)"
  by (simp add: method_defs Let_def)

lemma tick_state_defined:
  "state a \<in> {IDLE, RUNNING, PAUSED, LOCKED_PAUSED} \<Longrightarrow>
   state (tick a) \<in> {IDLE, RUNNING, PAUSED, LOCKED_PAUSED}"
  by (auto simp add: method_defs Let_def)

lemma run_append: "run (xs @ ys) a = run ys (run xs a)"
  by (induction xs arbitrary: a) simp_all

lemma phase_completes_append:
  "phase_completes (xs @ ys) = phase_completes xs @ phase_completes ys"
  by (induction xs rule: phase_completes.induct) simp_all

lemma tick_complete:
  "state a = RUNNING \<Longrightarrow> remaining_seconds a \<le> 0 \<Longrightarrow>
   state (tick a) = IDLE \<and> timers (tick a) = timers a
   \<and> remaining_seconds (tick a) = remaining_seconds a
   \<and> popups (tick a) = popups a + 1
   \<and> phase_completes (actions (tick a)) = phase_completes (actions a) @ [current_phase a]"
  by (simp add: method_defs Let_def phase_completes_append)

lemma deliver_counting:
  assumes "state a = RUNNING" "0 < remaining_seconds a" "length (timers a) = 1"
  shows "state (deliver a) = RUNNING \<and> remaining_seconds (deliver a) = remaining_seconds a - 1
    \<and> length (timers (deliver a)) = 1 \<and> actions (deliver a) = actions a
    \<and> current_phase (deliver a) = current_phase a \<and> config_data (deliver a) = config_data a
    \<and> popups (deliver a) = popups a \<and> toaster (deliver a) = toaster a"
proof -
  from assms(3) obtain t where "timers a = [t]"
    by (cases "timers a") simp_all
  with assms(1,2) show ?thesis
    by (simp add: deliver_def tick_def after_1000_tick_def)
qed

lemma run_ticks_counting:
  "state a = RUNNING \<Longrightarrow> remaining_seconds a = int k \<Longrightarrow> length (timers a) = 1 \<Longrightarrow> m \<le> k \<Longrightarrow>
   state (run (replicate m Tick) a) = RUNNING
   \<and> remaining_seconds (run (replicate m Tick) a) = int k - int m
   \<and> length (timers (run (replicate m Tick) a)) = 1
   \<and> actions (run (replicate m Tick) a) = actions a
   \<and> current_phase (run (replicate m Tick) a) = current_phase a
   \<and> config_data (run (replicate m Tick) a) = config_data a
   \<and> popups (run (replicate m Tick) a) = popups a
   \<and> toaster (run (replicate m Tick) a) = toaster a"
proof (induction m arbitrary: a k)
  case 0
  then show ?case by simp
next
  case (Suc m)
  from Suc.prems obtain k' where k: "k = Suc k'"
    by (cases k) simp_all
  have pos: "0 < remaining_seconds a"
    using Suc.prems k by simp
  note d = deliver_counting [OF Suc.prems(1) pos Suc.prems(3)]
  have "remaining_seconds (deliver a) = int k'"
    using d Suc.prems(2) k by simp
  moreover have "m \<le> k'"
    using Suc.prems(4) k by simp
  ultimately have ih: "state (run (replicate m Tick) (deliver a)) = RUNNING
   \<and> remaining_seconds (run (replicate m Tick) (deliver a)) = int k' - int m
   \<and> length (timers (run (replicate m Tick) (deliver a))) = 1
   \<and> actions (run (replicate m Tick) (deliver a)) = actions (deliver a)
   \<and> current_phase (run (replicate m Tick) (deliver a)) = current_phase (deliver a)
   \<and> config_data (run (replicate m Tick) (deliver a)) = config_data (deliver a)
   \<and> popups (run (replicate m Tick) (deliver a)) = popups (deliver a)
   \<and> toaster (run (replicate m Tick) (deliver a)) = toaster (deliver a)"
    using Suc.IH [of "deliver a" k'] d by simp
  show ?case
    using ih d k by simp
qed

lemma start_idle_pos:
  assumes "state a \<noteq> RUNNING" "0 < remaining_seconds a"
  shows "start_countdown a =
    a\<lparr>state := RUNNING, remaining_seconds := remaining_seconds a - 1,
      timers := timers a @ [now a + 1000]\<rparr>"
  using assms by (cases "current_phase a") (simp_all add: start_countdown_def tick_def after_1000_tick_def)


lemma step_config [simp]: "config_data (step e a) = config_data a"
  by (cases e) (simp_all add: method_defs Let_def split: list.splits)

lemma run_config [simp]: "config_data (run evs a) = config_data a"
  by (induction evs arbitrary: a) simp_all

lemma step_remaining_nonneg:
  assumes "0 \<le> remaining_seconds a"
    and "1 \<le> dict_get (use_seconds (config_data a)) 1500"
    and "1 \<le> dict_get (rest_seconds (config_data a)) 300"
  shows "0 \<le> remaining_seconds (step e a)"
  using assms by (cases e) (auto simp add: method_defs Let_def split: list.splits)

lemma step_state_defined:
  assumes "state a \<in> {IDLE, RUNNING, PAUSED, LOCKED_PAUSED}"
  shows "state (step e a) \<in> {IDLE, RUNNING, PAUSED, LOCKED_PAUSED}"
  using assms by (cases e) (auto simp add: method_defs Let_def split: list.splits)

lemma run_invariant:
  assumes "0 \<le> remaining_seconds a"
    and "state a \<in> {IDLE, RUNNING, PAUSED, LOCKED_PAUSED}"
    and "1 \<le> dict_get (use_seconds (config_data a)) 1500"
    and "1 \<le> dict_get (rest_seconds (config_data a)) 300"
  shows "0 \<le> remaining_seconds (run evs a)
    \<and> state (run evs a) \<in> {IDLE, RUNNING, PAUSED, LOCKED_PAUSED}"
  using assms
proof (induction evs arbitrary: a)
  case Nil
  then show ?case by simp
next
  case (Cons e evs)
  have "0 \<le> remaining_seconds (step e a)"
    using Cons.prems by (intro step_remaining_nonneg) simp_all
  moreover have "state (step e a) \<in> {IDLE, RUNNING, PAUSED, LOCKED_PAUSED}"
    using Cons.prems(2) by (rule step_state_defined)
  ultimately show ?case
    using Cons.IH [of "step e a"] Cons.prems(3,4) by simp
qed

lemma init_invariant:
  assumes "1 \<le> dict_get (use_seconds cfg) 1500"
    and "1 \<le> dict_get (rest_seconds cfg) 300"
  shows "0 \<le> remaining_seconds (init_app cfg tst)
    \<and> state (init_app cfg tst) \<in> {IDLE, RUNNING, PAUSED, LOCKED_PAUSED}
    \<and> config_data (init_app cfg tst) = cfg"
  using assms by (simp add: init_app_def idle_app_def method_defs Let_def)

lemmas eval_defs = method_defs session_defs use_session_def rest_session_def Let_def

lemma unlock_locked:
  "state a = LOCKED_PAUSED \<Longrightarrow> on_screen_unlock a = a\<lparr>state := RUNNING\<rparr>"
  by (cases "current_phase a") (simp_all add: on_screen_unlock_def start_countdown_def)

lemma filter_lock_tick:
  "filter (\<lambda>x. x = LockComputer) (actions (tick a)) = filter (\<lambda>x. x = LockComputer) (actions a)"
  by (simp add: method_defs Let_def)

lemma filter_lock_start:
  "filter (\<lambda>x. x = LockComputer) (actions (start_countdown a))
     = filter (\<lambda>x. x = LockComputer) (actions a)"
  by (simp add: start_countdown_def Let_def filter_lock_tick)

lemma start_countdown_phase [simp]: "current_phase (start_countdown a) = current_phase a"
  by (simp add: start_countdown_def Let_def)

lemma tick_running_pos:
  "state a = RUNNING \<Longrightarrow> 0 < remaining_seconds a \<Longrightarrow>
   tick a = a\<lparr>remaining_seconds := remaining_seconds a - 1,
             timers := timers a @ [now a + 1000]\<rparr>"
  by (simp add: tick_def after_1000_tick_def)

section \<open>The unlock signal\<close>

text \<open>
  Claim C1 says that an unlock signal received while LOCKED_PAUSED sets the state to RUNNING
  and resumes the tick loop at once, from the remaining time held at lock time. The source
  assigns \<^verbatim>\<open>self.state = CountdownState.RUNNING\<close> and then calls \<^verbatim>\<open>start_countdown\<close>, which
  returns at its first line because the state is RUNNING: no tick runs and none is scheduled
  (\<open>unlock_locked\<close> above, for every session). Evaluated on the REST countdown that was
  locked for more than a second, so that the callback scheduled before the lock has fired
  as a no-op: the unlock gives state RUNNING with the remaining 299 seconds kept, but the
  list of scheduled callbacks is empty, and later deliveries leave the remaining time at 299.
\<close>

theorem C1_unlock_schedules_no_tick:
  "state (run [Lock, Tick] rest_session) = LOCKED_PAUSED
   \<and> remaining_seconds (run [Lock, Tick] rest_session) = 299
   \<and> state (run [Lock, Tick, Unlock] rest_session) = RUNNING
   \<and> remaining_seconds (run [Lock, Tick, Unlock] rest_session) = 299
   \<and> timers (run [Lock, Tick, Unlock] rest_session) = []
   \<and> remaining_seconds (run [Lock, Tick, Unlock, Tick, Tick, Tick] rest_session) = 299"
  by (simp add: eval_defs)

section \<open>Scheduled ticks and state changes\<close>

text \<open>
  Claim C2 as stated fails. The callback scheduled by \<^verbatim>\<open>start_countdown\<close> is still
  scheduled after \<^verbatim>\<open>reset_countdown\<close>; a start within the same second schedules a second
  one, both are due at 1000 ms, and when both have fired the clock stands at 1000 ms and the
  remaining time has gone from 9 to 7. Pause and resume within one second leave two
  scheduled callbacks in the same way.
\<close>

theorem C2_no_cancel_doubled_decrement:
  "timers (run [Start] (idle_app (cfg_secs 10 300) False)) = [1000]
   \<and> timers (run [Start, Reset] (idle_app (cfg_secs 10 300) False)) = [1000]
   \<and> state (run [Start, Reset, Start] (idle_app (cfg_secs 10 300) False)) = RUNNING
   \<and> timers (run [Start, Reset, Start] (idle_app (cfg_secs 10 300) False)) = [1000, 1000]
   \<and> now (run [Start, Reset, Start] (idle_app (cfg_secs 10 300) False)) = 0
   \<and> remaining_seconds (run [Start, Reset, Start] (idle_app (cfg_secs 10 300) False)) = 9
   \<and> now (run [Start, Reset, Start, Tick, Tick] (idle_app (cfg_secs 10 300) False)) = 1000
   \<and> remaining_seconds (run [Start, Reset, Start, Tick, Tick] (idle_app (cfg_secs 10 300) False)) = 7
   \<and> timers (run [Start, PauseResume, PauseResume] (idle_app (cfg_secs 10 300) False)) = [1000, 1000]"
  by (simp add: eval_defs)

text \<open>
  Claim C2, amended. Neither \<^verbatim>\<open>reset_countdown\<close> nor a transition out of RUNNING (pause,
  lock signal, phase completion) cancels a scheduled tick callback: the scheduled callbacks
  stay as they are. A tick that arrives while the state is not RUNNING is a no-op: the
  application object is unchanged and no further tick is scheduled, so that delivering it
  only takes it off the event loop.
\<close>

theorem C2_stale_tick_is_noop:
  "timers (reset_countdown a) = timers a
   \<and> (state a = RUNNING \<longrightarrow> timers (toggle_pause a) = timers a)
   \<and> timers (on_screen_lock a) = timers a
   \<and> (state a = RUNNING \<and> remaining_seconds a \<le> 0 \<longrightarrow> timers (tick a) = timers a)
   \<and> (state a \<noteq> RUNNING \<longrightarrow> tick a = a)
   \<and> (state a \<noteq> RUNNING \<longrightarrow>
        deliver a = a\<lparr>now := (case timers a of [] \<Rightarrow> now a | due # rest \<Rightarrow> max (now a) due),
                      timers := tl (timers a)\<rparr>)"
  using tick_complete [of a]
  by (simp add: reset_countdown_def toggle_pause_def on_screen_lock_def tick_not_running
      deliver_def split: list.splits)

theorem C2_stale_tick_is_noop_witness:
  "state use_session = RUNNING
   \<and> timers (toggle_pause use_session) = timers use_session
   \<and> state (toggle_pause use_session) \<noteq> RUNNING
   \<and> tick (toggle_pause use_session) = toggle_pause use_session
   \<and> deliver (toggle_pause use_session) = (toggle_pause use_session)\<lparr>now := 1000, timers := []\<rparr>
   \<and> state (run [Start] (idle_app (cfg_secs 1 300) False)) = RUNNING
   \<and> remaining_seconds (run [Start] (idle_app (cfg_secs 1 300) False)) \<le> 0
   \<and> timers (tick (run [Start] (idle_app (cfg_secs 1 300) False))) = [1000]"
  using C2_stale_tick_is_noop [of use_session] C2_stale_tick_is_noop [of "toggle_pause use_session"]
    C2_stale_tick_is_noop [of "run [Start] (idle_app (cfg_secs 1 300) False)"]
  by (simp add: eval_defs)

section \<open>Phase completion\<close>

text \<open>
  Claim C3. With \<open>n\<close> seconds configured for use (\<open>n = 5\<close> in the claim; any \<open>n \<ge> 1\<close>
  here), starting the idle session and delivering \<open>n\<close> scheduled ticks announces the end of
  the USE phase exactly once, the state is then IDLE and no tick callback is scheduled, so
  that no further tick can apply; after fewer ticks nothing has been announced and the
  countdown still runs. In general a tick that finds the remaining time at 0 while RUNNING
  announces the end of the current phase once, leaves RUNNING and schedules no tick.
\<close>

theorem C3_phase_complete_exactly_once:
  assumes "use_seconds cfg = Some (int n)" and "0 < n"
  shows "phase_completes (actions (run (Start # replicate n Tick) (idle_app cfg tst))) = [USE]
    \<and> state (run (Start # replicate n Tick) (idle_app cfg tst)) = IDLE
    \<and> timers (run (Start # replicate n Tick) (idle_app cfg tst)) = []
    \<and> (\<forall>m<n. phase_completes (actions (run (Start # replicate m Tick) (idle_app cfg tst))) = []
          \<and> state (run (Start # replicate m Tick) (idle_app cfg tst)) = RUNNING)
    \<and> (\<forall>a. state a = RUNNING \<and> remaining_seconds a \<le> 0 \<longrightarrow>
          phase_completes (actions (tick a)) = phase_completes (actions a) @ [current_phase a]
          \<and> state (tick a) = IDLE \<and> timers (tick a) = timers a)"
proof -
  let ?s = "start_countdown (idle_app cfg tst)"
  from assms obtain k where n: "n = Suc k"
    by (cases n) simp_all
  have s: "?s = (idle_app cfg tst)\<lparr>state := RUNNING, remaining_seconds := int k,
      timers := [1000]\<rparr>"
    using assms n by (subst start_idle_pos) (simp_all add: idle_app_def dict_get_def)
  have s_state: "state ?s = RUNNING" and s_rem: "remaining_seconds ?s = int k"
    and s_len: "length (timers ?s) = 1" and s_act: "actions ?s = []"
    and s_ph: "current_phase ?s = USE"
    unfolding s by (simp_all add: idle_app_def)
  have part: "state (run (replicate m Tick) ?s) = RUNNING
      \<and> remaining_seconds (run (replicate m Tick) ?s) = int k - int m
      \<and> length (timers (run (replicate m Tick) ?s)) = 1
      \<and> actions (run (replicate m Tick) ?s) = []
      \<and> current_phase (run (replicate m Tick) ?s) = USE" if "m \<le> k" for m
    using run_ticks_counting [OF s_state s_rem s_len that] s_act s_ph by simp
  let ?b = "run (replicate k Tick) ?s"
  have b: "state ?b = RUNNING" "remaining_seconds ?b = 0" "length (timers ?b) = 1"
    "actions ?b = []" "current_phase ?b = USE"
    using part [of k] by simp_all
  from b(3) obtain t where t: "timers ?b = [t]"
    by (cases "timers ?b") simp_all
  let ?c = "?b\<lparr>now := max (now ?b) t, timers := []\<rparr>"
  have "replicate n Tick = replicate k Tick @ [Tick]"
    unfolding n by (simp add: replicate_append_same)
  then have fin: "run (Start # replicate n Tick) (idle_app cfg tst) = tick ?c"
    by (simp add: run_append deliver_def t)
  have c: "state ?c = RUNNING" "remaining_seconds ?c \<le> 0"
    using b by simp_all
  have last: "phase_completes (actions (tick ?c)) = [USE] \<and> state (tick ?c) = IDLE
      \<and> timers (tick ?c) = []"
    using tick_complete [OF c] b by simp
  have early: "phase_completes (actions (run (Start # replicate m Tick) (idle_app cfg tst))) = []
      \<and> state (run (Start # replicate m Tick) (idle_app cfg tst)) = RUNNING" if "m < n" for m
    using part [of m] that n by simp
  show ?thesis
    using last early tick_complete unfolding fin by blast
qed

theorem C3_phase_complete_exactly_once_witness:
  "use_seconds (cfg_secs 5 300) = Some (int 5) \<and> (0::nat) < 5
   \<and> phase_completes (actions (run (Start # replicate 5 Tick) (idle_app (cfg_secs 5 300) True)))
       = [USE]
   \<and> state (run (Start # replicate 5 Tick) (idle_app (cfg_secs 5 300) True)) = IDLE
   \<and> timers (run (Start # replicate 5 Tick) (idle_app (cfg_secs 5 300) True)) = []
   \<and> phase_completes (actions (run (Start # replicate 4 Tick) (idle_app (cfg_secs 5 300) True)))
       = []
   \<and> state (run (Start # replicate 4 Tick) (idle_app (cfg_secs 5 300) True)) = RUNNING
   \<and> remaining_seconds (run (Start # replicate 4 Tick) (idle_app (cfg_secs 5 300) True)) \<le> 0
   \<and> state (tick (run (Start # replicate 4 Tick) (idle_app (cfg_secs 5 300) True))) = IDLE"
proof -
  have h: "use_seconds (cfg_secs 5 300) = Some (int 5)" "(0::nat) < 5"
    by (simp_all add: cfg_secs_def)
  have r: "remaining_seconds (run (Start # replicate 4 Tick) (idle_app (cfg_secs 5 300) True)) \<le> 0"
    by code_simp
  show ?thesis
    using h r C3_phase_complete_exactly_once [OF h, of True] by simp
qed

section \<open>The invariant of the session\<close>

text \<open>
  Claim C4. From the session that \<^verbatim>\<open>App.__init__\<close> builds for a configuration whose
  two durations are at least 1, after every sequence of start, pause/resume and reset
  commands interleaved with ticks (and with lock and unlock signals and popup
  acknowledgements) \<^verbatim>\<open>remaining_seconds\<close> is not negative and \<^verbatim>\<open>state\<close> is one of the four
  constants of \<^verbatim>\<open>CountdownState\<close>.
\<close>

theorem C4_remaining_nonneg_state_defined:
  assumes "1 \<le> dict_get (use_seconds cfg) 1500"
    and "1 \<le> dict_get (rest_seconds cfg) 300"
  shows "0 \<le> remaining_seconds (run evs (init_app cfg tst))
    \<and> state (run evs (init_app cfg tst)) \<in> {IDLE, RUNNING, PAUSED, LOCKED_PAUSED}"
  using init_invariant [OF assms, of tst] assms by (intro run_invariant) simp_all

theorem C4_remaining_nonneg_state_defined_witness:
  "1 \<le> dict_get (use_seconds (cfg_secs 2 1)) 1500
   \<and> 1 \<le> dict_get (rest_seconds (cfg_secs 2 1)) 300
   \<and> 0 \<le> remaining_seconds
        (run [Start, Tick, PauseResume, Tick, PauseResume, Tick, Tick, Ack, Tick, Reset]
           (init_app (cfg_secs 2 1) True))
   \<and> state (run [Start, Tick, PauseResume, Tick, PauseResume, Tick, Tick, Ack, Tick, Reset]
           (init_app (cfg_secs 2 1) True)) \<in> {IDLE, RUNNING, PAUSED, LOCKED_PAUSED}"
  using C4_remaining_nonneg_state_defined [of "cfg_secs 2 1"
      "[Start, Tick, PauseResume, Tick, PauseResume, Tick, Tick, Ack, Tick, Reset]" True]
  by (simp add: cfg_secs_def default_config_def dict_get_def)

section \<open>Commands outside the transition table\<close>

text \<open>
  Claim C5 as stated fails: \<^verbatim>\<open>start_countdown\<close> tests for RUNNING only. On the REST
  countdown paused by a lock signal, a start command sets the state to RUNNING.
\<close>

theorem C5_start_while_locked_runs:
  "state (run [Lock] rest_session) = LOCKED_PAUSED
   \<and> state (start_countdown (run [Lock] rest_session)) = RUNNING
   \<and> start_countdown (run [Lock] rest_session) \<noteq> run [Lock] rest_session"
proof -
  have 1: "state (run [Lock] rest_session) = LOCKED_PAUSED"
    by (simp add: eval_defs)
  have 2: "state (start_countdown (run [Lock] rest_session)) = RUNNING"
    by (simp add: eval_defs)
  from 1 2 have "state (start_countdown (run [Lock] rest_session)) \<noteq> state (run [Lock] rest_session)"
    by simp
  then have "start_countdown (run [Lock] rest_session) \<noteq> run [Lock] rest_session"
    by metis
  with 1 2 show ?thesis by simp
qed

text \<open>
  Claim C5, amended. These combinations are no-ops: start while RUNNING; pause/resume in a
  state other than RUNNING and PAUSED (so in IDLE and LOCKED_PAUSED); a tick while not
  RUNNING; a lock signal unless the phase is REST and the state RUNNING; an unlock signal
  unless the state is LOCKED_PAUSED. A start command is not rejected in LOCKED_PAUSED (nor in
  PAUSED): in every state but RUNNING, with time remaining, it sets the state to RUNNING and
  runs a tick at once, which counts one second and schedules the next tick.
\<close>

theorem C5_rejected_combinations:
  "(state a = RUNNING \<longrightarrow> start_countdown a = a)
   \<and> (state a \<noteq> RUNNING \<and> state a \<noteq> PAUSED \<longrightarrow> toggle_pause a = a)
   \<and> (state a \<noteq> RUNNING \<longrightarrow> tick a = a)
   \<and> (\<not> (current_phase a = REST \<and> state a = RUNNING) \<longrightarrow> on_screen_lock a = a)
   \<and> (state a \<noteq> LOCKED_PAUSED \<longrightarrow> on_screen_unlock a = a)
   \<and> (state a \<noteq> RUNNING \<and> 0 < remaining_seconds a \<longrightarrow>
        start_countdown a =
          a\<lparr>state := RUNNING, remaining_seconds := remaining_seconds a - 1,
            timers := timers a @ [now a + 1000]\<rparr>)"
  using start_idle_pos [of a]
  by (simp add: start_countdown_def toggle_pause_def tick_not_running on_screen_lock_def
      on_screen_unlock_def)

theorem C5_rejected_combinations_witness:
  "state use_session = RUNNING \<and> start_countdown use_session = use_session
   \<and> \<not> (current_phase use_session = REST \<and> state use_session = RUNNING)
   \<and> on_screen_lock use_session = use_session
   \<and> state use_session \<noteq> LOCKED_PAUSED \<and> on_screen_unlock use_session = use_session
   \<and> state (run [Lock] rest_session) \<noteq> RUNNING \<and> state (run [Lock] rest_session) \<noteq> PAUSED
   \<and> toggle_pause (run [Lock] rest_session) = run [Lock] rest_session
   \<and> tick (run [Lock] rest_session) = run [Lock] rest_session
   \<and> 0 < remaining_seconds (run [Lock] rest_session)
   \<and> start_countdown (run [Lock] rest_session) =
       (run [Lock] rest_session)\<lparr>state := RUNNING, remaining_seconds := 298,
          timers := [2000, 2000]\<rparr>"
  using C5_rejected_combinations [of use_session] C5_rejected_combinations [of "run [Lock] rest_session"]
  by (simp add: eval_defs)

section \<open>The lock signal\<close>

text \<open>
  Claim C6. A lock signal received while the phase is REST and the state is RUNNING sets
  the state to LOCKED_PAUSED and changes nothing else; in every other combination of phase
  and state it changes nothing, in particular the state is kept while the phase is USE.
  The remaining time is never changed by it.
\<close>

theorem C6_lock_signal:
  "(current_phase a = REST \<and> state a = RUNNING \<longrightarrow>
      on_screen_lock a = a\<lparr>state := LOCKED_PAUSED\<rparr>)
   \<and> (\<not> (current_phase a = REST \<and> state a = RUNNING) \<longrightarrow> on_screen_lock a = a)
   \<and> (current_phase a = USE \<longrightarrow> state (on_screen_lock a) = state a)
   \<and> remaining_seconds (on_screen_lock a) = remaining_seconds a"
  by (simp add: on_screen_lock_def)

theorem C6_lock_signal_witness:
  "current_phase rest_session = REST \<and> state rest_session = RUNNING
   \<and> on_screen_lock rest_session = rest_session\<lparr>state := LOCKED_PAUSED\<rparr>
   \<and> remaining_seconds (on_screen_lock rest_session) = 299
   \<and> current_phase use_session = USE
   \<and> \<not> (current_phase use_session = REST \<and> state use_session = RUNNING)
   \<and> on_screen_lock use_session = use_session
   \<and> state (on_screen_lock use_session) = RUNNING"
  using C6_lock_signal [of rest_session] C6_lock_signal [of use_session]
  by (simp add: eval_defs)

section \<open>Acknowledging the popup\<close>

text \<open>
  Claim C7. \<^verbatim>\<open>_close_popup_and_start_next\<close> sets the phase to the other phase and the
  remaining time to the duration \<open>d\<close> configured for it, and then restarts the countdown
  from that session \<open>s\<close>: through \<^verbatim>\<open>_lock_computer\<close>, the state RUNNING and a tick when the
  lock-screen toggle is on and the phase that ended is USE, through \<^verbatim>\<open>start_countdown\<close>
  otherwise. The phase afterwards is the other phase, \<^verbatim>\<open>_lock_computer\<close> has been called
  once more exactly when the toggle is on and the ended phase is USE, and for a configured
  duration of at least 1 the state afterwards is RUNNING, with the first second counted
  by the tick that the restart runs.
\<close>

theorem C7_popup_acknowledgement:
  "(let nxt = (if current_phase a = USE then REST else USE);
        d = (if current_phase a = USE then dict_get (rest_seconds (config_data a)) 300
             else dict_get (use_seconds (config_data a)) 1500);
        lock = (dict_get (enable_lock_screen (config_data a)) False \<and> current_phase a = USE);
        s = a\<lparr>popups := popups a - 1, current_phase := nxt, remaining_seconds := d\<rparr>;
        r = close_popup_and_start_next a
    in r = (if lock then tick (s\<lparr>actions := actions a @ [LockComputer], state := RUNNING\<rparr>)
            else start_countdown s)
       \<and> current_phase r = nxt
       \<and> filter (\<lambda>x. x = LockComputer) (actions r)
           = filter (\<lambda>x. x = LockComputer) (actions a) @ (if lock then [LockComputer] else [])
       \<and> (1 \<le> d \<longrightarrow>
            state r = RUNNING
            \<and> remaining_seconds r = (if state a = RUNNING \<and> \<not> lock then d else d - 1)
            \<and> actions r = actions a @ (if lock then [LockComputer] else [])))"
proof -
  define nxt where "nxt = (if current_phase a = USE then REST else USE)"
  define d where "d = (if current_phase a = USE then dict_get (rest_seconds (config_data a)) 300
             else dict_get (use_seconds (config_data a)) 1500)"
  define lock where
    "lock = (dict_get (enable_lock_screen (config_data a)) False \<and> current_phase a = USE)"
  define s where "s = a\<lparr>popups := popups a - 1, current_phase := nxt, remaining_seconds := d\<rparr>"
  define r where "r = close_popup_and_start_next a"
  have eq: "r = (if lock then tick (s\<lparr>actions := actions a @ [LockComputer], state := RUNNING\<rparr>)
            else start_countdown s)"
    unfolding r_def s_def lock_def d_def nxt_def
    by (cases "current_phase a")
      (simp_all add: close_popup_and_start_next_def lock_computer_def Let_def)
  have ph: "current_phase r = nxt"
    unfolding eq by (simp add: s_def)
  have fl: "filter (\<lambda>x. x = LockComputer) (actions r)
           = filter (\<lambda>x. x = LockComputer) (actions a) @ (if lock then [LockComputer] else [])"
    unfolding eq by (simp add: filter_lock_tick filter_lock_start s_def)
  have run: "state r = RUNNING
            \<and> remaining_seconds r = (if state a = RUNNING \<and> \<not> lock then d else d - 1)
            \<and> actions r = actions a @ (if lock then [LockComputer] else [])" if "1 \<le> d"
  proof (cases lock)
    case True
    have "r = tick (s\<lparr>actions := actions a @ [LockComputer], state := RUNNING\<rparr>)"
      using eq True by simp
    also have "\<dots> = s\<lparr>actions := actions a @ [LockComputer], state := RUNNING,
        remaining_seconds := d - 1, timers := timers a @ [now a + 1000]\<rparr>"
      using that by (subst tick_running_pos) (simp_all add: s_def)
    finally show ?thesis
      using True by simp
  next
    case False
    then have r: "r = start_countdown s"
      using eq by simp
    show ?thesis
    proof (cases "state a = RUNNING")
      case True
      then have "start_countdown s = s"
        by (simp add: start_countdown_def s_def)
      then show ?thesis
        using r True False by (simp add: s_def)
    next
      case nr: False
      then have "start_countdown s = s\<lparr>state := RUNNING,
          remaining_seconds := remaining_seconds s - 1, timers := timers s @ [now s + 1000]\<rparr>"
        using that by (intro start_idle_pos) (simp_all add: s_def)
      then show ?thesis
        using r nr False by (simp add: s_def)
    qed
  qed
  show ?thesis
    unfolding Let_def
    using eq ph fl run
    unfolding r_def s_def lock_def d_def nxt_def
    by blast
qed

theorem C7_popup_acknowledgement_witness:
  "current_phase (run [Start, Tick] (idle_app (cfg_secs 1 300) False)) = USE
   \<and> (1::int) \<le> 300
   \<and> current_phase (close_popup_and_start_next
        (run [Start, Tick] (idle_app (cfg_secs 1 300) False))) = REST
   \<and> state (close_popup_and_start_next
        (run [Start, Tick] (idle_app (cfg_secs 1 300) False))) = RUNNING
   \<and> remaining_seconds (close_popup_and_start_next
        (run [Start, Tick] (idle_app (cfg_secs 1 300) False))) = 299
   \<and> actions (close_popup_and_start_next
        (run [Start, Tick] (idle_app (cfg_secs 1 300) False))) = [Popup USE False]
   \<and> state (close_popup_and_start_next
        (run [Start, Tick]
           (idle_app ((cfg_secs 1 300)\<lparr>enable_lock_screen := Some True\<rparr>) False))) = RUNNING
   \<and> actions (close_popup_and_start_next
        (run [Start, Tick]
           (idle_app ((cfg_secs 1 300)\<lparr>enable_lock_screen := Some True\<rparr>) False)))
       = [Popup USE False, LockComputer]"
  using C7_popup_acknowledgement [of "run [Start, Tick] (idle_app (cfg_secs 1 300) False)"]
    C7_popup_acknowledgement [of "run [Start, Tick]
           (idle_app ((cfg_secs 1 300)\<lparr>enable_lock_screen := Some True\<rparr>) False)"]
  by (simp add: eval_defs)

section \<open>Redundant commands\<close>

text \<open>
  Claim C8. \<^verbatim>\<open>start_countdown\<close> while RUNNING and \<^verbatim>\<open>toggle_pause\<close> while IDLE leave the
  application object, and so phase, state and remaining time, unchanged.
\<close>

theorem C8_redundant_commands:
  "(state a = RUNNING \<longrightarrow> start_countdown a = a)
   \<and> (state a = IDLE \<longrightarrow> toggle_pause a = a)"
  by (simp add: start_countdown_def toggle_pause_def)

theorem C8_redundant_commands_witness:
  "state use_session = RUNNING \<and> start_countdown use_session = use_session
   \<and> state (idle_app (cfg_secs 10 300) False) = IDLE
   \<and> toggle_pause (idle_app (cfg_secs 10 300) False) = idle_app (cfg_secs 10 300) False"
  using C8_redundant_commands [of use_session] C8_redundant_commands [of "idle_app (cfg_secs 10 300) False"]
  by (simp add: eval_defs)

section \<open>Reading the configuration\<close>

text \<open>
  Claim C9. \<^verbatim>\<open>read_config\<close> returns the full default record when the file is missing,
  when opening it raises and when parsing it raises, and in general whenever the body of
  its \<^verbatim>\<open>try\<close> raises; it has no result other than a configuration. The default record has
  all eleven fields, with 1500 and 300 seconds.
\<close>

theorem C9_read_config_defaults:
  "read_config Absent = default_config
   \<and> read_config OpenFails = default_config
   \<and> read_config LoadFails = default_config
   \<and> ((\<exists>e. load_config f = Inl e) \<longrightarrow> read_config f = default_config)
   \<and> use_seconds default_config = Some 1500 \<and> rest_seconds default_config = Some 300
   \<and> popup_width default_config = Some 600 \<and> popup_height default_config = Some 400
   \<and> video_path default_config = Some []
   \<and> auto_start_countdown default_config = Some True
   \<and> windows_autostart default_config = Some False
   \<and> enable_tray default_config = Some True \<and> enable_toast default_config = Some True
   \<and> fullscreen_rest default_config = Some False
   \<and> enable_lock_screen default_config = Some False"
  by (auto simp add: read_config_def load_config_def default_config_def split: config_file.splits)

theorem C9_read_config_defaults_witness:
  "load_config LoadFails = Inl JSONDecodeError \<and> read_config LoadFails = default_config"
  using C9_read_config_defaults [of LoadFails]
  by (simp add: load_config_def)

section \<open>Saving the settings\<close>

text \<open>
  Claim C10. When \<^verbatim>\<open>save_settings\<close> has written and installed its record, the installed
  record and the file have no \<^verbatim>\<open>enable_toast\<close> and no \<^verbatim>\<open>fullscreen_rest\<close> field, whatever
  the configuration before held. After any later events both toggles read as their defaults
  True and False: the popup is never fullscreen, and the toast depends on the toaster alone.
  The nine other fields hold the values of the form.
\<close>

theorem C10_save_drops_toast_and_fullscreen:
  assumes "save_settings w u f a = Inr (f', a')"
  shows "enable_toast (config_data a') = None \<and> fullscreen_rest (config_data a') = None
    \<and> f' = Loaded (config_data a')
    \<and> enable_toast (read_config f') = None \<and> fullscreen_rest (read_config f') = None
    \<and> (\<forall>evs. dict_get (enable_toast (config_data (run evs a'))) True = True
          \<and> dict_get (fullscreen_rest (config_data (run evs a'))) False = False
          \<and> actions (show_media_popup_and_continue (run evs a'))
              = actions (run evs a') @ [Popup (current_phase (run evs a')) False]
          \<and> notify_phase_complete (run evs a')
              = (if toaster (run evs a')
                 then (run evs a')\<lparr>actions := actions (run evs a')
                        @ [Toast (if current_phase (run evs a') = USE then REST else USE)]\<rparr>
                 else run evs a'))
    \<and> use_seconds (config_data a') = Some (use_seconds_var u)
    \<and> rest_seconds (config_data a') = Some (rest_seconds_var u)
    \<and> popup_width (config_data a') = Some (popup_w_var u)
    \<and> popup_height (config_data a') = Some (popup_h_var u)
    \<and> video_path (config_data a') = Some (video_path_var u)
    \<and> auto_start_countdown (config_data a') = Some (auto_start_var u)
    \<and> windows_autostart (config_data a') = Some (win_autostart_var u)
    \<and> enable_tray (config_data a') = Some (tray_var u)
    \<and> enable_lock_screen (config_data a') = Some (lock_screen_var u)"
proof -
  let ?cfg = "\<lparr>use_seconds = Some (use_seconds_var u), rest_seconds = Some (rest_seconds_var u),
         popup_width = Some (popup_w_var u), popup_height = Some (popup_h_var u),
         video_path = Some (video_path_var u),
         auto_start_countdown = Some (auto_start_var u),
         windows_autostart = Some (win_autostart_var u), enable_tray = Some (tray_var u),
         enable_toast = None, fullscreen_rest = None,
         enable_lock_screen = Some (lock_screen_var u)\<rparr>"
  from assms have f': "f' = Loaded ?cfg" and a': "a' = reset_countdown (a\<lparr>config_data := ?cfg\<rparr>)"
    by (simp_all add: save_settings_def write_config_def Let_def split: if_splits)
  have cfg: "config_data a' = ?cfg"
    by (simp add: a' reset_countdown_def)
  have toggles: "enable_toast (config_data a') = None \<and> fullscreen_rest (config_data a') = None"
    by (simp add: cfg)
  have disk: "f' = Loaded (config_data a')"
    by (simp add: f' cfg)
  have reread: "enable_toast (read_config f') = None \<and> fullscreen_rest (read_config f') = None"
    by (simp add: f' read_config_def load_config_def)
  have gets: "dict_get (enable_toast (config_data (run evs a'))) True = True
      \<and> dict_get (fullscreen_rest (config_data (run evs a'))) False = False" for evs
    by (simp add: cfg dict_get_def)
  have popup: "actions (show_media_popup_and_continue (run evs a'))
      = actions (run evs a') @ [Popup (current_phase (run evs a')) False]" for evs
    by (simp add: show_media_popup_and_continue_def Let_def cfg dict_get_def)
  have toast: "notify_phase_complete (run evs a')
      = (if toaster (run evs a')
         then (run evs a')\<lparr>actions := actions (run evs a')
                @ [Toast (if current_phase (run evs a') = USE then REST else USE)]\<rparr>
         else run evs a')" for evs
    by (simp add: notify_phase_complete_def cfg dict_get_def)
  have fields: "use_seconds (config_data a') = Some (use_seconds_var u)
    \<and> rest_seconds (config_data a') = Some (rest_seconds_var u)
    \<and> popup_width (config_data a') = Some (popup_w_var u)
    \<and> popup_height (config_data a') = Some (popup_h_var u)
    \<and> video_path (config_data a') = Some (video_path_var u)
    \<and> auto_start_countdown (config_data a') = Some (auto_start_var u)
    \<and> windows_autostart (config_data a') = Some (win_autostart_var u)
    \<and> enable_tray (config_data a') = Some (tray_var u)
    \<and> enable_lock_screen (config_data a') = Some (lock_screen_var u)"
    by (simp add: cfg)
  have later: "\<forall>evs. dict_get (enable_toast (config_data (run evs a'))) True = True
          \<and> dict_get (fullscreen_rest (config_data (run evs a'))) False = False
          \<and> actions (show_media_popup_and_continue (run evs a'))
              = actions (run evs a') @ [Popup (current_phase (run evs a')) False]
          \<and> notify_phase_complete (run evs a')
              = (if toaster (run evs a')
                 then (run evs a')\<lparr>actions := actions (run evs a')
                        @ [Toast (if current_phase (run evs a') = USE then REST else USE)]\<rparr>
                 else run evs a')"
    using gets popup toast by (intro allI conjI) (rule conjunct1, assumption | rule conjunct2, assumption | assumption)+
  show ?thesis
    using toggles disk reread later fields by - (elim conjE, intro conjI; assumption)
qed

theorem C10_save_drops_toast_and_fullscreen_witness:
  "save_settings True ui_values (Loaded cfg_toggles) (use_session\<lparr>config_data := cfg_toggles\<rparr>)
     = Inr (Loaded (config_data (reset_countdown (use_session\<lparr>config_data :=
              default_config\<lparr>use_seconds := Some 1200, rest_seconds := Some 120,
                popup_width := Some 800, popup_height := Some 600,
                video_path := Some ''rest.mp4'', enable_toast := None,
                fullscreen_rest := None, enable_lock_screen := Some True\<rparr>\<rparr>))),
            reset_countdown (use_session\<lparr>config_data :=
              default_config\<lparr>use_seconds := Some 1200, rest_seconds := Some 120,
                popup_width := Some 800, popup_height := Some 600,
                video_path := Some ''rest.mp4'', enable_toast := None,
                fullscreen_rest := None, enable_lock_screen := Some True\<rparr>\<rparr>))
   \<and> fullscreen_rest (config_data (use_session\<lparr>config_data := cfg_toggles\<rparr>)) = Some True
   \<and> enable_toast (config_data (use_session\<lparr>config_data := cfg_toggles\<rparr>)) = Some False
   \<and> fullscreen_rest (config_data (reset_countdown (use_session\<lparr>config_data :=
              default_config\<lparr>use_seconds := Some 1200, rest_seconds := Some 120,
                popup_width := Some 800, popup_height := Some 600,
                video_path := Some ''rest.mp4'', enable_toast := None,
                fullscreen_rest := None, enable_lock_screen := Some True\<rparr>\<rparr>))) = None
   \<and> enable_toast (config_data (reset_countdown (use_session\<lparr>config_data :=
              default_config\<lparr>use_seconds := Some 1200, rest_seconds := Some 120,
                popup_width := Some 800, popup_height := Some 600,
                video_path := Some ''rest.mp4'', enable_toast := None,
                fullscreen_rest := None, enable_lock_screen := Some True\<rparr>\<rparr>))) = None"
proof -
  have h: "save_settings True ui_values (Loaded cfg_toggles) (use_session\<lparr>config_data := cfg_toggles\<rparr>)
     = Inr (Loaded (config_data (reset_countdown (use_session\<lparr>config_data :=
              default_config\<lparr>use_seconds := Some 1200, rest_seconds := Some 120,
                popup_width := Some 800, popup_height := Some 600,
                video_path := Some ''rest.mp4'', enable_toast := None,
                fullscreen_rest := None, enable_lock_screen := Some True\<rparr>\<rparr>))),
            reset_countdown (use_session\<lparr>config_data :=
              default_config\<lparr>use_seconds := Some 1200, rest_seconds := Some 120,
                popup_width := Some 800, popup_height := Some 600,
                video_path := Some ''rest.mp4'', enable_toast := None,
                fullscreen_rest := None, enable_lock_screen := Some True\<rparr>\<rparr>))"
    by (simp add: save_settings_def write_config_def ui_values_def reset_countdown_def
        default_config_def Let_def)
  show ?thesis
    using h C10_save_drops_toast_and_fullscreen [OF h] by (simp add: cfg_toggles_def cfg_secs_def default_config_def)
qed

end
